theory Spec2Isabelle
  imports Complex_Main "HOL-Library.AList"
begin

section \<open>Values of the Python program\<close>

text \<open>
  A Python \<^verbatim>\<open>float\<close> is read as a real number or the not-a-number sentinel \<open>NaN\<close>
  (pandas' "undefined"). Arithmetic on finite values is exact unless a rounding operator is
  named explicitly (see \<open>b64_round\<close> below); infinities are not represented, a non-finite
  result is \<open>NaN\<close>. Python's \<^verbatim>\<open>None\<close> is the \<open>None\<close> of an option type.
\<close>

datatype pyfloat = NaN | Fin real

datatype py_error = KeyError | ValueError | IndexError | ZeroDivisionError | TypeError

fun pd_isna :: "pyfloat \<Rightarrow> bool" where
  "pd_isna NaN = True"
| "pd_isna (Fin x) = False"

fun pf_mul :: "pyfloat \<Rightarrow> pyfloat \<Rightarrow> pyfloat" where
  "pf_mul (Fin x) (Fin y) = Fin (x * y)"
| "pf_mul a b = NaN"

fun pf_sub :: "pyfloat \<Rightarrow> pyfloat \<Rightarrow> pyfloat" where
  "pf_sub (Fin x) (Fin y) = Fin (x - y)"
| "pf_sub a b = NaN"

fun pf_neg :: "pyfloat \<Rightarrow> pyfloat" where
  "pf_neg (Fin x) = Fin (- x)"
| "pf_neg NaN = NaN"

text \<open>Comparisons with \<open>NaN\<close> are false, as in IEEE 754 and Python.\<close>

fun pf_gt :: "pyfloat \<Rightarrow> pyfloat \<Rightarrow> bool" where
  "pf_gt (Fin x) (Fin y) = (x > y)"
| "pf_gt a b = False"

fun pf_le :: "pyfloat \<Rightarrow> pyfloat \<Rightarrow> bool" where
  "pf_le (Fin x) (Fin y) = (x \<le> y)"
| "pf_le a b = False"

text \<open>Python's true division of floats raises on a zero divisor.\<close>

fun py_truediv :: "pyfloat \<Rightarrow> pyfloat \<Rightarrow> py_error + pyfloat" where
  "py_truediv (Fin x) (Fin y) = (if y = 0 then Inl ZeroDivisionError else Inr (Fin (x / y)))"
| "py_truediv NaN (Fin y) = (if y = 0 then Inl ZeroDivisionError else Inr NaN)"
| "py_truediv a NaN = Inr NaN"

text \<open>The result of one rounded floating-point operation: \<open>fl\<close> maps the exact result to
  the value stored.\<close>

fun pf_round :: "(real \<Rightarrow> real) \<Rightarrow> pyfloat \<Rightarrow> pyfloat" where
  "pf_round fl (Fin x) = Fin (fl x)"
| "pf_round fl NaN = NaN"

text \<open>
  A Python \<^verbatim>\<open>dict\<close> with string keys, in insertion order: assigning to a key that is
  present replaces its value in place, assigning to a new key appends.
\<close>

type_synonym 'v dict = "(string \<times> 'v) list"

definition dict_set :: "string \<Rightarrow> 'v \<Rightarrow> 'v dict \<Rightarrow> 'v dict" where
  "dict_set k v d = AList.update k v d"

definition dict_lookup :: "'v dict \<Rightarrow> string \<Rightarrow> 'v option" where
  "dict_lookup d k = map_of d k"

definition dict_keys :: "'v dict \<Rightarrow> string list" where
  "dict_keys d = map fst d"

section \<open>Configuration (config\_manager.py)\<close>

text \<open>
  The settings mapping of \<^verbatim>\<open>RiskConfig\<close>: a field is \<open>None\<close> when the key is absent from the
  JSON file. \<^verbatim>\<open>settings.get(key, default)\<close> reads a field with its default,
  \<^verbatim>\<open>settings[key]\<close> raises \<^verbatim>\<open>KeyError\<close> on an absent key.
\<close>

record dynamic_floor_cfg =
  lookback_years :: "real option"
  percentile :: "real option"

record settings =
  lookback_days :: "int option"
  drift_lookback_days :: "int option"
  volatility_window :: "int option"
  crypto_trading_days :: "int option"
  stock_trading_days :: "int option"
  max_crash_cap :: "real option"
  dynamic_floor :: "dynamic_floor_cfg option"

record risk_config =
  assets :: "string list"
  settings :: settings
  multipliers :: "real dict"

definition get_or :: "'a option \<Rightarrow> 'a \<Rightarrow> 'a" where
  "get_or field dflt = (case field of None \<Rightarrow> dflt | Some v \<Rightarrow> v)"

definition get_item :: "'a option \<Rightarrow> py_error + 'a" where
  "get_item field = (case field of None \<Rightarrow> Inl KeyError | Some v \<Rightarrow> Inr v)"

section \<open>Safe-price projection (risk\_engine.py)\<close>

text \<open>
  \<^verbatim>\<open>RiskEngine.compute_safe_prices\<close>. The guard clause stores \<^verbatim>\<open>None\<close> under every key;
  otherwise each multiplier gives \<^verbatim>\<open>cycle_high * (1 - crash)\<close> with
  \<^verbatim>\<open>crash = vol * mult\<close> replaced by \<^verbatim>\<open>max_cap\<close> when it is greater. The operator \<open>fl\<close>
  is applied to the exact result of each of the three floating-point operations and to the
  decimal literal \<^verbatim>\<open>0.85\<close>.
\<close>

definition safe_price_entry ::
  "(real \<Rightarrow> real) \<Rightarrow> pyfloat \<Rightarrow> pyfloat \<Rightarrow> pyfloat \<Rightarrow> real \<Rightarrow> pyfloat" where
  "safe_price_entry fl vol cycle_high max_cap mult =
     (let crash = pf_round fl (pf_mul vol (Fin mult));
          crash = (if pf_gt crash max_cap then max_cap else crash)
      in pf_round fl (pf_mul cycle_high (pf_round fl (pf_sub (Fin 1) crash))))"

definition safe_prices_fl ::
  "(real \<Rightarrow> real) \<Rightarrow> risk_config \<Rightarrow> pyfloat \<Rightarrow> pyfloat \<Rightarrow> pyfloat option dict" where
  "safe_prices_fl fl config vol cycle_high =
     (if pd_isna vol then
        fold (\<lambda>name res. dict_set (name @ '' Price'') None res)
             (dict_keys (multipliers config)) []
      else
        (let max_cap = Fin (get_or (max_crash_cap (settings config)) (fl 0.85))
         in fold (\<lambda>(name, mult) res.
                    dict_set (name @ '' Price'')
                      (Some (safe_price_entry fl vol cycle_high max_cap mult)) res)
                 (multipliers config) []))"

text \<open>The projector in exact arithmetic, the reading used by the rest of the development.\<close>

definition compute_safe_prices ::
  "risk_config \<Rightarrow> pyfloat \<Rightarrow> pyfloat \<Rightarrow> pyfloat option dict" where
  "compute_safe_prices config vol cycle_high = safe_prices_fl (\<lambda>x. x) config vol cycle_high"

section \<open>pandas series\<close>

text \<open>
  A \<^verbatim>\<open>pandas.Series\<close> indexed by date: the list of its (date, value) rows in index order.
  Dates are day numbers. The operations below follow the documented behaviour of the pandas
  and numpy calls the program makes.
\<close>

type_synonym date = int
type_synonym series = "(date \<times> pyfloat) list"

fun fin_values :: "pyfloat list \<Rightarrow> real list" where
  "fin_values [] = []"
| "fin_values (Fin x # vs) = x # fin_values vs"
| "fin_values (NaN # vs) = fin_values vs"

text \<open>\<^verbatim>\<open>s.tail(n)\<close>: the last \<open>n\<close> rows; no row for \<open>n = 0\<close>; all but the first \<open>-n\<close> rows for
  a negative \<open>n\<close>.\<close>

definition pd_tail :: "int \<Rightarrow> series \<Rightarrow> series" where
  "pd_tail n xs =
     (if n = 0 then []
      else if 0 < n then drop (length xs - nat n) xs
      else drop (nat (- n)) xs)"

text \<open>\<^verbatim>\<open>s.iloc[-1]\<close> raises \<^verbatim>\<open>IndexError\<close> on an empty series.\<close>

definition pd_iloc_last :: "series \<Rightarrow> py_error + pyfloat" where
  "pd_iloc_last xs = (if xs = [] then Inl IndexError else Inr (snd (last xs)))"

text \<open>\<^verbatim>\<open>s.max()\<close> skips \<open>NaN\<close>; it is \<open>NaN\<close> when no value is left.\<close>

definition pd_max :: "series \<Rightarrow> pyfloat" where
  "pd_max xs =
     (case fin_values (map snd xs) of [] \<Rightarrow> NaN | v # vs \<Rightarrow> Fin (fold max vs v))"

text \<open>\<^verbatim>\<open>s.idxmax()\<close>: the label of the first row holding the maximum. On an empty or all-\<open>NaN\<close>
  series there is no such label and the caller fails (\<^verbatim>\<open>ValueError\<close>).\<close>

definition pd_idxmax :: "series \<Rightarrow> py_error + date" where
  "pd_idxmax xs =
     (case pd_max xs of
        NaN \<Rightarrow> Inl ValueError
      | Fin m \<Rightarrow>
          (case find (\<lambda>row. snd row = Fin m) xs of
             None \<Rightarrow> Inl ValueError
           | Some row \<Rightarrow> Inr (fst row)))"

text \<open>\<^verbatim>\<open>float(s.loc[label])\<close>: \<^verbatim>\<open>KeyError\<close> when the label is not in the index; with a
  repeated label \<^verbatim>\<open>loc\<close> gives a sub-series and \<^verbatim>\<open>float\<close> raises \<^verbatim>\<open>TypeError\<close>.\<close>

definition pd_loc :: "series \<Rightarrow> date \<Rightarrow> py_error + pyfloat" where
  "pd_loc xs d =
     (case filter (\<lambda>row. fst row = d) xs of
        [] \<Rightarrow> Inl KeyError
      | [row] \<Rightarrow> Inr (snd row)
      | row # row' # rows \<Rightarrow> Inl TypeError)"

text \<open>\<^verbatim>\<open>s.asof(label)\<close>: the last value that is not \<open>NaN\<close> among the rows at or before the
  label, \<open>NaN\<close> when there is none; the index must be sorted.\<close>

definition pd_asof :: "series \<Rightarrow> date \<Rightarrow> py_error + pyfloat" where
  "pd_asof xs d =
     (if \<not> sorted (map fst xs) then Inl ValueError
      else (case filter (\<lambda>row. fst row \<le> d \<and> \<not> pd_isna (snd row)) xs of
              [] \<Rightarrow> Inr NaN
            | row # rows \<Rightarrow> Inr (snd (last (row # rows)))))"

text \<open>\<^verbatim>\<open>s.quantile(q)\<close> with the default linear interpolation: \<open>NaN\<close> entries are dropped, the
  rest sorted, and the value at the fractional rank \<open>(m - 1) * q\<close> interpolated between its
  neighbours. \<^verbatim>\<open>ValueError\<close> for \<open>q\<close> outside \<open>[0, 1]\<close>.\<close>

definition pd_quantile :: "series \<Rightarrow> real \<Rightarrow> py_error + pyfloat" where
  "pd_quantile xs q =
     (if q < 0 \<or> 1 < q then Inl ValueError
      else
        (let vs = sort (fin_values (map snd xs)) in
         if vs = [] then Inr NaN
         else
           (let h = real (length vs - 1) * q;
                lo = nat \<lfloor>h\<rfloor>;
                hi = nat \<lceil>h\<rceil>
            in Inr (Fin (vs ! lo + (h - real lo) * (vs ! hi - vs ! lo))))))"

text \<open>\<^verbatim>\<open>s.shift(1)\<close> on the values: every value moves one row down, the first row is \<open>NaN\<close>.\<close>

definition pd_shift1 :: "pyfloat list \<Rightarrow> pyfloat list" where
  "pd_shift1 vs = (if vs = [] then [] else NaN # butlast vs)"

text \<open>Element-wise division and logarithm of numpy: no exception; a zero divisor or a
  non-positive argument gives a non-finite value, here \<open>NaN\<close>.\<close>

fun np_div :: "pyfloat \<Rightarrow> pyfloat \<Rightarrow> pyfloat" where
  "np_div (Fin x) (Fin y) = (if y = 0 then NaN else Fin (x / y))"
| "np_div a b = NaN"

fun np_log :: "pyfloat \<Rightarrow> pyfloat" where
  "np_log (Fin x) = (if 0 < x then Fin (ln x) else NaN)"
| "np_log NaN = NaN"

definition np_sqrt :: "int \<Rightarrow> pyfloat" where
  "np_sqrt n = (if n < 0 then NaN else Fin (sqrt (real_of_int n)))"

text \<open>The sample standard deviation (\<^verbatim>\<open>ddof=1\<close>).\<close>

definition sample_std :: "real list \<Rightarrow> real" where
  "sample_std ws =
     (let n = length ws; m = sum_list ws / real n
      in sqrt (sum_list (map (\<lambda>x. (x - m)\<^sup>2) ws) / real (n - 1)))"

text \<open>\<^verbatim>\<open>s.rolling(window=w, min_periods=p).std()\<close>: row \<open>t\<close> looks at the rows
  \<open>t - w + 1 .. t\<close> (fewer at the start) and is defined when at least \<open>p\<close> of them are not
  \<open>NaN\<close>. pandas raises \<^verbatim>\<open>ValueError\<close> when \<open>p > w\<close> or \<open>w < 0\<close>.\<close>

definition rolling_window :: "nat \<Rightarrow> pyfloat list \<Rightarrow> nat \<Rightarrow> pyfloat list" where
  "rolling_window w vs t = drop (Suc t - w) (take (Suc t) vs)"

definition rolling_std :: "int \<Rightarrow> nat \<Rightarrow> pyfloat list \<Rightarrow> py_error + pyfloat list" where
  "rolling_std window min_periods vs =
     (if window < 0 \<or> window < int min_periods then Inl ValueError
      else Inr (map (\<lambda>t. let ws = fin_values (rolling_window (nat window) vs t)
                         in if min_periods \<le> length ws \<and> 2 \<le> length ws
                            then Fin (sample_std ws) else NaN)
                    [0..<length vs]))"

section \<open>Risk engine (risk\_engine.py)\<close>

text \<open>\<^verbatim>\<open>RiskEngine.get_annual_days\<close>: a hyphen in the ticker marks a crypto asset.\<close>

definition get_annual_days :: "risk_config \<Rightarrow> string \<Rightarrow> int" where
  "get_annual_days config ticker =
     (if CHR ''-'' \<in> set ticker
      then get_or (crypto_trading_days (settings config)) 365
      else get_or (stock_trading_days (settings config)) 252)"

text \<open>\<^verbatim>\<open>RiskEngine.calculate_volatility\<close>: the rolling standard deviation of the daily log
  returns, with \<^verbatim>\<open>min_periods=5\<close>, times the square root of the annualisation days.\<close>

definition log_returns :: "pyfloat list \<Rightarrow> pyfloat list" where
  "log_returns vs = map np_log (map2 np_div vs (pd_shift1 vs))"

definition calculate_volatility :: "risk_config \<Rightarrow> series \<Rightarrow> int \<Rightarrow> py_error + series" where
  "calculate_volatility config prices annual_days =
     (let window = get_or (volatility_window (settings config)) 30;
          log_ret = log_returns (map snd prices)
      in case rolling_std window 5 log_ret of
           Inl e \<Rightarrow> Inl e
         | Inr rolling \<Rightarrow>
             Inr (zip (map fst prices)
                      (map (\<lambda>v. pf_mul v (np_sqrt annual_days)) rolling)))"

text \<open>Python's \<^verbatim>\<open>int(x)\<close> on a float truncates towards zero.\<close>

definition py_int :: "real \<Rightarrow> int" where
  "py_int x = (if 0 \<le> x then \<lfloor>x\<rfloor> else \<lceil>x\<rceil>)"

text \<open>\<^verbatim>\<open>RiskEngine.calculate_dynamic_floor\<close>.\<close>

definition calculate_dynamic_floor :: "risk_config \<Rightarrow> series \<Rightarrow> int \<Rightarrow> py_error + pyfloat" where
  "calculate_dynamic_floor config rolling_vol annual_days =
     (let cfg = get_or (dynamic_floor (settings config))
                  \<lparr>lookback_years = None, percentile = None\<rparr>;
          years = get_or (lookback_years cfg) 5;
          pct = get_or (percentile cfg) 0.25;
          window_size = py_int (years * real_of_int annual_days)
      in if int (length rolling_vol) < window_size then Inr (Fin 0.50)
         else pd_quantile (pd_tail window_size rolling_vol) pct)"

section \<open>The orchestrator (main.py)\<close>

text \<open>
  The two result rows of one asset. The fixed keys of the Python row dictionaries are the
  fields; the safe prices added by \<^verbatim>\<open>row_curr.update(safe_prices)\<close> and by the
  \<^verbatim>\<open>"ATH " + k\<close> loop are kept as dictionaries of their own (every such key ends in
  \<^verbatim>\<open>" Price"\<close> after at least one more character, so none collides with a fixed key).
\<close>

datatype verdict = InsufficientHistory | Liquidated | Safe pyfloat

record current_row =
  cr_ticker :: string
  cr_price :: pyfloat
  cr_cycle_high :: pyfloat
  cr_drawdown :: pyfloat
  cr_raw_vol :: pyfloat
  cr_dynamic_floor :: pyfloat
  cr_floor_active :: string
  cr_safe_prices :: "pyfloat option dict"

record drift_row =
  dr_ticker :: string
  dr_ath_date :: date
  dr_ath_price :: pyfloat
  dr_ath_vol :: pyfloat
  dr_current_price :: pyfloat
  dr_ath_limits :: "pyfloat option dict"
  dr_survival_check :: verdict

text \<open>Python's \<^verbatim>\<open>max(a, b)\<close> keeps \<open>a\<close> unless \<open>b > a\<close>.\<close>

definition py_max :: "pyfloat \<Rightarrow> pyfloat \<Rightarrow> pyfloat" where
  "py_max a b = (if pf_gt b a then b else a)"

text \<open>\<^verbatim>\<open>d.get(k)\<close>: \<^verbatim>\<open>None\<close> for an absent key, else the stored value (which may be
  \<^verbatim>\<open>None\<close> itself).\<close>

definition dict_get :: "'v option dict \<Rightarrow> string \<Rightarrow> 'v option" where
  "dict_get d k = (case dict_lookup d k of None \<Rightarrow> None | Some v \<Rightarrow> v)"

text \<open>The lookup of the volatility at the date of the high (main.py, lines 90--93):
  the exact row, and on \<^verbatim>\<open>KeyError\<close> the as-of lookup.\<close>

definition lookup_ath_vol :: "series \<Rightarrow> date \<Rightarrow> py_error + pyfloat" where
  "lookup_ath_vol vol_series ath_date =
     (case pd_loc vol_series ath_date of
        Inr v \<Rightarrow> Inr v
      | Inl KeyError \<Rightarrow> pd_asof vol_series ath_date
      | Inl e \<Rightarrow> Inl e)"

text \<open>The survival check (main.py, lines 110--118). The verdict \<open>Safe margin\<close> stands for
  the string \<^verbatim>\<open>SAFE (+margin)\<close> with the margin printed as a percentage.\<close>

definition survival_check :: "pyfloat \<Rightarrow> pyfloat option \<Rightarrow> py_error + verdict" where
  "survival_check current_price hk_price =
     (case hk_price of
        None \<Rightarrow> Inr InsufficientHistory
      | Some hk \<Rightarrow>
          if pd_isna hk then Inr InsufficientHistory
          else if pf_le current_price hk then Inr Liquidated
          else (case py_truediv (pf_sub current_price hk) current_price of
                  Inl e \<Rightarrow> Inl e
                | Inr margin \<Rightarrow> Inr (Safe margin)))"

text \<open>Analysis B of the loop body (main.py, lines 84--120).\<close>

definition leverage_drift ::
  "risk_config \<Rightarrow> string \<Rightarrow> series \<Rightarrow> series \<Rightarrow> pyfloat \<Rightarrow> py_error + drift_row" where
  "leverage_drift config ticker prices vol_series current_price =
     (case get_item (drift_lookback_days (settings config)) of
        Inl e \<Rightarrow> Inl e
      | Inr drift_days \<Rightarrow>
     (let window = pd_tail drift_days prices in
      case pd_idxmax window of
        Inl e \<Rightarrow> Inl e
      | Inr ath_date \<Rightarrow>
     (let ath_price = pd_max window in
      case lookup_ath_vol vol_series ath_date of
        Inl e \<Rightarrow> Inl e
      | Inr ath_vol \<Rightarrow>
     (let hist_limits = compute_safe_prices config ath_vol ath_price;
          hk_price = dict_get hist_limits ''Half Kelly Price''
      in case survival_check current_price hk_price of
           Inl e \<Rightarrow> Inl e
         | Inr check \<Rightarrow>
             Inr \<lparr>dr_ticker = ticker, dr_ath_date = ath_date, dr_ath_price = ath_price,
                  dr_ath_vol = ath_vol, dr_current_price = current_price,
                  dr_ath_limits =
                    fold (\<lambda>(k, v) row. dict_set (''ATH '' @ k) v row) hist_limits [],
                  dr_survival_check = check\<rparr>))))"

text \<open>Analysis A of the loop body (main.py, lines 60--82), entered with a raw volatility
  that passed the insufficient-data guard.\<close>

definition current_risk ::
  "risk_config \<Rightarrow> string \<Rightarrow> series \<Rightarrow> series \<Rightarrow> int \<Rightarrow> pyfloat \<Rightarrow> pyfloat \<Rightarrow>
   py_error + current_row" where
  "current_risk config ticker prices vol_series annual_days current_price raw_vol =
     (case calculate_dynamic_floor config vol_series annual_days of
        Inl e \<Rightarrow> Inl e
      | Inr floor_val \<Rightarrow>
     (let effective_vol = py_max raw_vol floor_val;
          is_floored = pf_gt effective_vol raw_vol
      in case get_item (lookback_days (settings config)) of
        Inl e \<Rightarrow> Inl e
      | Inr lookback \<Rightarrow>
     (let cycle_high = pd_max (pd_tail lookback prices) in
      case py_truediv (pf_sub cycle_high current_price) cycle_high of
        Inl e \<Rightarrow> Inl e
      | Inr drawdown \<Rightarrow>
          Inr \<lparr>cr_ticker = ticker, cr_price = current_price, cr_cycle_high = cycle_high,
               cr_drawdown = pf_neg drawdown, cr_raw_vol = raw_vol,
               cr_dynamic_floor = floor_val,
               cr_floor_active = (if is_floored then ''YES'' else ''No''),
               cr_safe_prices = compute_safe_prices config effective_vol cycle_high\<rparr>)))"

text \<open>The loop body for one asset whose price history was fetched (main.py, lines 47--120):
  \<open>Inr None\<close> is the \<^verbatim>\<open>continue\<close> of the insufficient-data guard, \<open>Inl e\<close> an exception,
  which nothing in \<^verbatim>\<open>main\<close> catches.\<close>

definition process_asset ::
  "risk_config \<Rightarrow> string \<Rightarrow> series \<Rightarrow> py_error + (current_row \<times> drift_row) option" where
  "process_asset config ticker prices =
     (let annual_days = get_annual_days config ticker in
      case calculate_volatility config prices annual_days of
        Inl e \<Rightarrow> Inl e
      | Inr vol_series \<Rightarrow>
     (case pd_iloc_last prices of
        Inl e \<Rightarrow> Inl e
      | Inr current_price \<Rightarrow>
     (case pd_iloc_last vol_series of
        Inl e \<Rightarrow> Inl e
      | Inr raw_vol \<Rightarrow>
      if pd_isna raw_vol then Inr None
      else
     (case current_risk config ticker prices vol_series annual_days current_price raw_vol of
        Inl e \<Rightarrow> Inl e
      | Inr row_curr \<Rightarrow>
     (case leverage_drift config ticker prices vol_series current_price of
        Inl e \<Rightarrow> Inl e
      | Inr row_drift \<Rightarrow> Inr (Some (row_curr, row_drift)))))))"

text \<open>The loop over the configured assets. \<open>fetch\<close> is \<^verbatim>\<open>DataLoader.fetch_history\<close> followed
  by the selection of the \<^verbatim>\<open>Close\<close> column: \<open>None\<close> when no data came back. The state is the
  pair of result lists.\<close>

fun run_assets ::
  "risk_config \<Rightarrow> (string \<Rightarrow> series option) \<Rightarrow> string list \<Rightarrow>
   current_row list \<times> drift_row list \<Rightarrow> py_error + current_row list \<times> drift_row list" where
  "run_assets config fetch [] results = Inr results"
| "run_assets config fetch (ticker # rest) results =
     (case fetch ticker of
        None \<Rightarrow> run_assets config fetch rest results
      | Some prices \<Rightarrow>
          (case process_asset config ticker prices of
             Inl e \<Rightarrow> Inl e
           | Inr None \<Rightarrow> run_assets config fetch rest results
           | Inr (Some (row_curr, row_drift)) \<Rightarrow>
               run_assets config fetch rest
                 (fst results @ [row_curr], snd results @ [row_drift])))"

section \<open>Binary64 rounding\<close>

text \<open>
  The value a Python float operation stores: the exact result rounded to the nearest number
  with a 53-bit significand, ties to the even significand (IEEE 754 binary64, within the
  normal range; overflow and subnormals are not modelled).
\<close>

definition round_half_even :: "real \<Rightarrow> int" where
  "round_half_even x =
     (let f = \<lfloor>x\<rfloor>; r = x - of_int f
      in if r < 1 / 2 then f
         else if 1 / 2 < r then f + 1
         else if even f then f else f + 1)"

definition b64_round :: "real \<Rightarrow> real" where
  "b64_round x =
     (if x = 0 then 0
      else (let e = \<lfloor>log 2 \<bar>x\<bar>\<rfloor> - 52
            in of_int (round_half_even (x / 2 powr of_int e)) * 2 powr of_int e))"

section \<open>An example configuration\<close>

text \<open>The multipliers of the repository's test fixtures with the two window lengths of the
  specification; every other setting is absent and takes the default written in the code.\<close>

definition example_config :: risk_config where
  "example_config =
     \<lparr>assets = [''BTC-USD''],
      settings = \<lparr>lookback_days = Some 365, drift_lookback_days = Some 1825,
                  volatility_window = None, crypto_trading_days = None,
                  stock_trading_days = None, max_crash_cap = None, dynamic_floor = None\<rparr>,
      multipliers = [(''Half Kelly'', 1.5)]\<rparr>"

section \<open>Dictionaries built by a loop of assignments\<close>

lemma lookup_fold_set:
  "dict_lookup (fold (\<lambda>x res. dict_set (kf x) (vf x) res) xs d) =
     map_of d ++ map_of (rev (map (\<lambda>x. (kf x, vf x)) xs))"
proof (induction xs arbitrary: d)
  case Nil
  show ?case by (simp add: dict_lookup_def fun_eq_iff)
next
  case (Cons a xs)
  have "dict_lookup (fold (\<lambda>x res. dict_set (kf x) (vf x) res) (a # xs) d) =
        map_of (dict_set (kf a) (vf a) d) ++ map_of (rev (map (\<lambda>x. (kf x, vf x)) xs))"
    using Cons.IH [of "dict_set (kf a) (vf a) d"] by simp
  also have "\<dots> = map_of d ++ map_of (rev (map (\<lambda>x. (kf x, vf x)) (a # xs)))"
    by (auto simp: dict_set_def update_conv' fun_eq_iff map_add_def split: option.splits)
  finally show ?case .
qed

lemma keys_fold_set:
  "set (dict_keys (fold (\<lambda>x res. dict_set (kf x) (vf x) res) xs d)) = kf ` set xs \<union> set (dict_keys d)"
  by (induction xs arbitrary: d) (auto simp: dict_keys_def dict_set_def dom_update)

lemma lookup_fold_set_distinct:
  assumes "distinct (map kf xs)" "x \<in> set xs"
  shows "dict_lookup (fold (\<lambda>x res. dict_set (kf x) (vf x) res) xs []) (kf x) = Some (vf x)"
proof -
  have d: "distinct (map fst (rev (map (\<lambda>x. (kf x, vf x)) xs)))"
    using assms(1) by (simp add: rev_map [symmetric] comp_def)
  have "(kf x, vf x) \<in> set (rev (map (\<lambda>x. (kf x, vf x)) xs))"
    using assms(2) by auto
  then have "map_of (rev (map (\<lambda>x. (kf x, vf x)) xs)) (kf x) = Some (vf x)"
    using d by simp
  then show ?thesis by (simp add: lookup_fold_set)
qed

lemma lookup_fold_set_notin:
  assumes "k \<notin> kf ` set xs"
  shows "dict_lookup (fold (\<lambda>x res. dict_set (kf x) (vf x) res) xs []) k = None"
proof -
  have "k \<notin> fst ` set (rev (map (\<lambda>x. (kf x, vf x)) xs))"
    using assms by force
  then have "map_of (rev (map (\<lambda>x. (kf x, vf x)) xs)) k = None"
    by (simp add: map_of_eq_None_iff)
  then show ?thesis by (simp add: lookup_fold_set)
qed

lemma lookup_fold_set_const:
  assumes "x \<in> set xs"
  shows "dict_lookup (fold (\<lambda>x res. dict_set (kf x) c res) xs []) (kf x) = Some c"
proof -
  have "kf x \<in> fst ` set (rev (map (\<lambda>x. (kf x, c)) xs))"
    using assms by force
  then obtain v where v: "map_of (rev (map (\<lambda>x. (kf x, c)) xs)) (kf x) = Some v"
    by (metis map_of_eq_None_iff not_Some_eq)
  then have "(kf x, v) \<in> set (rev (map (\<lambda>x. (kf x, c)) xs))"
    by (rule map_of_SomeD)
  then have "v = c" by auto
  with v show ?thesis by (simp add: lookup_fold_set)
qed

section \<open>Evaluating binary64 rounding\<close>

text \<open>For a positive \<open>x\<close> below \<open>2 ^ 53\<close> the rounding is that of \<open>x * 2 ^ n\<close> to an
  integer, for the \<open>n\<close> that brings the significand into \<open>[2 ^ 52, 2 ^ 53)\<close>.\<close>

lemma b64_round_scaled:
  fixes x :: real and n :: nat
  assumes lo: "2 ^ 52 \<le> x * 2 ^ n" and hi: "x * 2 ^ n < 2 ^ 53"
  shows "b64_round x = of_int (round_half_even (x * 2 ^ n)) / 2 ^ n"
proof -
  have xpos: "0 < x"
  proof (rule ccontr)
    assume "\<not> 0 < x"
    then have "x * 2 ^ n \<le> 0" by (simp add: mult_le_0_iff)
    with lo show False by (smt (verit) zero_less_power)
  qed
  have p: "2 powr (of_int (52 - int n)) = (2::real) ^ 52 / 2 ^ n"
  proof -
    have "2 powr (of_int (52 - int n)) = (2::real) powr (real 52 - real n)" by simp
    also have "\<dots> = 2 powr (real 52) / 2 powr (real n)" by (rule powr_diff)
    also have "\<dots> = 2 ^ 52 / 2 ^ n" by (simp only: powr_realpow zero_less_numeral)
    finally show ?thesis .
  qed
  have p1: "2 powr (of_int (52 - int n + 1)) = (2::real) ^ 53 / 2 ^ n"
  proof -
    have "2 powr (of_int (52 - int n + 1)) = (2::real) powr (real 53 - real n)" by simp
    also have "\<dots> = 2 powr (real 53) / 2 powr (real n)" by (rule powr_diff)
    also have "\<dots> = 2 ^ 53 / 2 ^ n" by (simp only: powr_realpow zero_less_numeral)
    finally show ?thesis .
  qed
  have a: "2 powr (of_int (52 - int n)) \<le> x"
    unfolding p using lo by (simp add: field_simps)
  have b: "x < 2 powr (of_int (52 - int n + 1))"
    unfolding p1 using hi by (simp add: field_simps)
  have "\<lfloor>log 2 x\<rfloor> = 52 - int n"
    using floor_log_eq_powr_iff [of x 2 "52 - int n"] xpos a b by simp
  then have e: "\<lfloor>log 2 \<bar>x\<bar>\<rfloor> - 52 = - int n"
    using xpos by simp
  have q: "2 powr (of_int (- int n)) = 1 / (2::real) ^ n"
    by (simp add: powr_minus powr_realpow field_simps)
  show ?thesis
    using xpos unfolding b64_round_def e Let_def q by simp
qed

lemma b64_085: "b64_round 0.85 = 7656119366529843 / 2 ^ 53"
  by (subst b64_round_scaled [where n = 53]) (simp_all add: round_half_even_def Let_def)

lemma b64_15: "b64_round 15 = 15"
  by (subst b64_round_scaled [where n = 49]) (simp_all add: round_half_even_def Let_def)

lemma b64_one_minus: "b64_round (1 - 7656119366529843 / 2 ^ 53) = 1351079888211149 / 2 ^ 53"
  by (subst b64_round_scaled [where n = 55]) (simp_all add: round_half_even_def Let_def)

lemma b64_prod: "b64_round (100 * (1351079888211149 / 2 ^ 53)) = 15 + 1 / 2 ^ 49"
  by (subst b64_round_scaled [where n = 49]) (simp_all add: round_half_even_def Let_def)

section \<open>Properties of the safe-price projection\<close>

lemma safe_prices_nan:
  "safe_prices_fl fl config NaN cycle_high =
     fold (\<lambda>name res. dict_set (name @ '' Price'') None res) (dict_keys (multipliers config)) []"
  by (simp add: safe_prices_fl_def)

lemma safe_prices_fin:
  "safe_prices_fl fl config (Fin v) cycle_high =
     fold (\<lambda>x res. dict_set (fst x @ '' Price'')
            (Some (safe_price_entry fl (Fin v) cycle_high
                     (Fin (get_or (max_crash_cap (settings config)) (fl 0.85))) (snd x))) res)
          (multipliers config) []"
  by (simp add: safe_prices_fl_def Let_def case_prod_unfold)

lemma price_keys_distinct:
  "distinct (map fst (ms :: real dict)) \<Longrightarrow> distinct (map (\<lambda>x. fst x @ '' Price'') ms)"
  by (simp add: distinct_map inj_on_def comp_def)

lemma safe_prices_lookup:
  assumes "distinct (dict_keys (multipliers config))" "(name, mult) \<in> set (multipliers config)"
  shows "dict_lookup (safe_prices_fl fl config (Fin v) cycle_high) (name @ '' Price'') =
         Some (Some (safe_price_entry fl (Fin v) cycle_high
                     (Fin (get_or (max_crash_cap (settings config)) (fl 0.85))) mult))"
proof -
  have d: "distinct (map (\<lambda>x. fst x @ '' Price'') (multipliers config))"
    using assms(1) by (simp add: dict_keys_def price_keys_distinct)
  show ?thesis
    unfolding safe_prices_fin
    using lookup_fold_set_distinct [OF d assms(2),
        where vf = "\<lambda>x. Some (safe_price_entry fl (Fin v) cycle_high
                     (Fin (get_or (max_crash_cap (settings config)) (fl 0.85))) (snd x))"]
    by simp
qed

lemma safe_price_entry_fin:
  "safe_price_entry fl (Fin v) (Fin h) (Fin c) m = Fin (fl (h * fl (1 - min (fl (v * m)) c)))"
  by (simp add: safe_price_entry_def Let_def min_def)

lemma example_cap: "get_or (max_crash_cap (settings example_config)) (fl 0.85) = fl 0.85"
  by (simp add: example_config_def get_or_def)

lemma example_lookup:
  "dict_lookup (safe_prices_fl fl example_config (Fin v) h) ''Half Kelly Price'' =
     Some (Some (safe_price_entry fl (Fin v) h (Fin (fl 0.85)) 1.5))"
proof -
  have "dict_lookup (safe_prices_fl fl example_config (Fin v) h) (''Half Kelly'' @ '' Price'') =
     Some (Some (safe_price_entry fl (Fin v) h
        (Fin (get_or (max_crash_cap (settings example_config)) (fl 0.85))) 1.5))"
    by (rule safe_prices_lookup) (simp_all add: dict_keys_def example_config_def)
  then show ?thesis unfolding example_cap by simp
qed

lemma b64_entry:
  "safe_price_entry b64_round (Fin 10) (Fin 100) (Fin (b64_round 0.85)) 1.5 = Fin (15 + 1 / 2 ^ 49)"
proof -
  have s1: "b64_round (10 * 1.5) = 15" using b64_15 by simp
  have s2: "min (15::real) (b64_round 0.85) = b64_round 0.85" unfolding b64_085 by simp
  have s3: "b64_round (1 - b64_round 0.85) = 1351079888211149 / 2 ^ 53"
    unfolding b64_085 by (rule b64_one_minus)
  show ?thesis
    unfolding safe_price_entry_fin s1 s2 s3 b64_prod ..
qed

lemma exact_entry:
  "safe_price_entry (\<lambda>x. x) (Fin 10) (Fin 100) (Fin 0.85) 1.5 = Fin 15"
  by (simp add: safe_price_entry_fin)


text \<open>
  C2. Called with an undefined volatility, the projector returns a dictionary whose keys
  are exactly the configured threshold names followed by \<^verbatim>\<open>" Price"\<close>, and every key holds
  \<^verbatim>\<open>None\<close>: not a number (so never zero), and no exception, the function being total.
\<close>

theorem undefined_vol_gives_none_for_every_key:
  "pd_isna vol \<Longrightarrow>
   set (dict_keys (compute_safe_prices config vol cycle_high)) =
     (\<lambda>name. name @ '' Price'') ` set (dict_keys (multipliers config)) \<and>
   (\<forall>k \<in> set (dict_keys (compute_safe_prices config vol cycle_high)).
      dict_lookup (compute_safe_prices config vol cycle_high) k = Some None)"
proof -
  assume "pd_isna vol"
  then have v: "vol = NaN" by (cases vol) simp_all
  have keys: "set (dict_keys (compute_safe_prices config NaN cycle_high)) =
     (\<lambda>name. name @ '' Price'') ` set (dict_keys (multipliers config))"
    unfolding compute_safe_prices_def safe_prices_nan keys_fold_set
    by (simp add: dict_keys_def)
  have "dict_lookup (compute_safe_prices config NaN cycle_high) (name @ '' Price'') = Some None"
    if "name \<in> set (dict_keys (multipliers config))" for name
    unfolding compute_safe_prices_def safe_prices_nan
    using lookup_fold_set_const [OF that, of "\<lambda>name. name @ '' Price''" None] .
  with keys show ?thesis unfolding v by auto
qed

theorem undefined_vol_gives_none_witness:
  "pd_isna NaN \<and>
   set (dict_keys (compute_safe_prices example_config NaN (Fin 100))) = {''Half Kelly Price''} \<and>
   dict_lookup (compute_safe_prices example_config NaN (Fin 100)) ''Half Kelly Price'' = Some None"
proof -
  have n: "pd_isna NaN" by simp
  have k: "(\<lambda>name. name @ '' Price'') ` set (dict_keys (multipliers example_config)) =
           {''Half Kelly Price''}"
    by (simp add: example_config_def dict_keys_def)
  note t = undefined_vol_gives_none_for_every_key [OF n, of example_config "Fin 100"]
  from t have a: "set (dict_keys (compute_safe_prices example_config NaN (Fin 100))) =
                  {''Half Kelly Price''}"
    unfolding k by blast
  with t n show ?thesis by simp
qed

text \<open>
  C3 (as amended). For a defined volatility and reference price and a configured
  (name, multiplier) pair, the projector stores under the name's key the price
  \<open>reference_price * (1 - min (vol * mult) max_cap)\<close>, each operation rounded by the
  arithmetic \<open>fl\<close> in use. At \<open>vol = 10\<close>, multiplier \<open>1.5\<close>, cap \<open>0.85\<close> and reference
  price \<open>100\<close> the price is \<open>15\<close> in exact arithmetic and \<open>15 + 2\<^sup>-\<^sup>4\<^sup>9\<close>
  (printed \<^verbatim>\<open>15.000000000000002\<close>) in binary64.
\<close>

theorem safe_price_formula:
  "(distinct (dict_keys (multipliers config)) \<and> (name, mult) \<in> set (multipliers config) \<longrightarrow>
     dict_lookup (safe_prices_fl fl config (Fin vol) (Fin reference_price)) (name @ '' Price'') =
       Some (Some (Fin (fl (reference_price *
          fl (1 - min (fl (vol * mult)) (get_or (max_crash_cap (settings config)) (fl 0.85)))))))) \<and>
   dict_lookup (compute_safe_prices example_config (Fin 10) (Fin 100)) ''Half Kelly Price''
     = Some (Some (Fin 15)) \<and>
   dict_lookup (safe_prices_fl b64_round example_config (Fin 10) (Fin 100)) ''Half Kelly Price''
     = Some (Some (Fin (15 + 1 / 2 ^ 49)))"
proof (intro conjI impI)
  assume "distinct (dict_keys (multipliers config)) \<and> (name, mult) \<in> set (multipliers config)"
  then show "dict_lookup (safe_prices_fl fl config (Fin vol) (Fin reference_price)) (name @ '' Price'') =
       Some (Some (Fin (fl (reference_price *
          fl (1 - min (fl (vol * mult)) (get_or (max_crash_cap (settings config)) (fl 0.85)))))))"
    using safe_prices_lookup [of config name mult fl vol "Fin reference_price"]
    by (simp add: safe_price_entry_fin)
next
  show "dict_lookup (compute_safe_prices example_config (Fin 10) (Fin 100)) ''Half Kelly Price''
     = Some (Some (Fin 15))"
    unfolding compute_safe_prices_def example_lookup exact_entry ..
next
  show "dict_lookup (safe_prices_fl b64_round example_config (Fin 10) (Fin 100)) ''Half Kelly Price''
     = Some (Some (Fin (15 + 1 / 2 ^ 49)))"
    unfolding example_lookup b64_entry ..
qed

theorem safe_price_formula_witness:
  "distinct (dict_keys (multipliers example_config)) \<and>
   (''Half Kelly'', 1.5) \<in> set (multipliers example_config) \<and>
   dict_lookup (safe_prices_fl (\<lambda>x. x) example_config (Fin 0.2) (Fin 100)) ''Half Kelly Price'' =
     Some (Some (Fin 70))"
  using safe_price_formula [of example_config "''Half Kelly''" "1.5" "\<lambda>x. x" "0.2" 100]
  by (simp add: example_config_def dict_keys_def get_or_def)

text \<open>
  C3 as stated fails on Python floats: the price computed for \<open>vol = 10\<close>, multiplier
  \<open>1.5\<close>, cap \<open>0.85\<close>, reference price \<open>100\<close> is not \<open>15\<close>.
\<close>

theorem capped_price_not_exactly_15:
  "dict_lookup (safe_prices_fl b64_round example_config (Fin 10) (Fin 100)) ''Half Kelly Price''
     \<noteq> Some (Some (Fin 15))"
  unfolding example_lookup b64_entry by simp



end
